theory Spec2Isabelle
  imports Complex_Main
begin

section \<open>Data model (simulation\_types.py)\<close>

text \<open>
  Python floats are idealised as the reals throughout: rounding, infinities and NaN are
  not modelled. Revenue, frequency, cost and every loss are of type \<open>real\<close>.
  Functions keep their Python names, without the leading underscore of the private ones.
\<close>

datatype RevenueBand = BAND_10M | BAND_100M | BAND_500M | BAND_1B

datatype Industry = HEALTHCARE | FINANCE | RETAIL | MANUFACTURING | CONSTRUCTION

text \<open>
  Exceptions. The source raises the built-in \<open>ValueError\<close> with different messages;
  the model keeps one constructor per message so that the failures stay distinguishable,
  and \<open>exception_class\<close> gives the Python class back.
\<close>

datatype error =
    InvalidRevenue          \<comment> \<open>\<open>ValueError("Invalid revenue: ...")\<close>\<close>
  | InvalidBand             \<comment> \<open>\<open>ValueError("Invalid revenue band: ...")\<close>\<close>
  | UnknownIndustry         \<comment> \<open>\<open>ValueError("Unknown industry: ...")\<close>\<close>
  | UnknownBand             \<comment> \<open>\<open>ValueError("Invalid revenue band: ... for industry: ...")\<close>\<close>
  | InvalidIndustryString   \<comment> \<open>\<open>ValueError("Invalid industry string: ...")\<close>\<close>
  | EmptyReduction          \<comment> \<open>numpy's \<open>ValueError\<close>: zero-size array to reduction operation\<close>
  | NameError
  | AttributeError
  | KeyError

datatype py_exception = PyValueError | PyNameError | PyAttributeError | PyKeyError

fun exception_class :: "error \<Rightarrow> py_exception" where
  "exception_class NameError = PyNameError"
| "exception_class AttributeError = PyAttributeError"
| "exception_class KeyError = PyKeyError"
| "exception_class _ = PyValueError"

text \<open>The \<open>value\<close> of a \<open>RevenueBand\<close> member and the \<open>name\<close> of an \<open>Industry\<close> member.\<close>

fun band_value :: "RevenueBand \<Rightarrow> string" where
  "band_value BAND_10M = ''10M''"
| "band_value BAND_100M = ''100M''"
| "band_value BAND_500M = ''500M''"
| "band_value BAND_1B = ''1B''"

fun industry_name :: "Industry \<Rightarrow> string" where
  "industry_name HEALTHCARE = ''HEALTHCARE''"
| "industry_name FINANCE = ''FINANCE''"
| "industry_name RETAIL = ''RETAIL''"
| "industry_name MANUFACTURING = ''MANUFACTURING''"
| "industry_name CONSTRUCTION = ''CONSTRUCTION''"

text \<open>
  \<open>str.upper\<close> and \<open>str.lower\<close>, on ASCII letters; every other character is left as it
  is (strings are taken to be ASCII).
\<close>

definition upper_char :: "char \<Rightarrow> char" where
  "upper_char c =
     (case map_of (zip ''abcdefghijklmnopqrstuvwxyz'' ''ABCDEFGHIJKLMNOPQRSTUVWXYZ'') c of
        Some d \<Rightarrow> d | None \<Rightarrow> c)"

definition lower_char :: "char \<Rightarrow> char" where
  "lower_char c =
     (case map_of (zip ''ABCDEFGHIJKLMNOPQRSTUVWXYZ'' ''abcdefghijklmnopqrstuvwxyz'') c of
        Some d \<Rightarrow> d | None \<Rightarrow> c)"

definition upper :: "string \<Rightarrow> string" where
  "upper s = map upper_char s"

definition lower :: "string \<Rightarrow> string" where
  "lower s = map lower_char s"

text \<open>\<open>revenue_band_dict = {band.value: band for band in RevenueBand}\<close>\<close>

definition revenue_band_dict :: "string \<rightharpoonup> RevenueBand" where
  "revenue_band_dict =
     map_of (map (\<lambda>band. (band_value band, band)) [BAND_10M, BAND_100M, BAND_500M, BAND_1B])"

text \<open>\<open>return revenue_band_dict.get(band_str, None)\<close>\<close>

definition parse_revenue_band :: "string \<Rightarrow> RevenueBand option" where
  "parse_revenue_band band_str = revenue_band_dict band_str"

text \<open>\<open>cls[key]\<close>: the member of that name, or \<open>KeyError\<close>.\<close>

definition industry_getitem :: "string \<Rightarrow> error + Industry" where
  "industry_getitem key =
     (case map_of (map (\<lambda>i. (industry_name i, i))
                    [HEALTHCARE, FINANCE, RETAIL, MANUFACTURING, CONSTRUCTION]) key of
        Some i \<Rightarrow> Inr i
      | None \<Rightarrow> Inl KeyError)"

text \<open>
  \<open>Industry.from_string\<close>: \<open>try: return cls[industry_str.upper()]\<close>, and
  \<open>except KeyError: raise ValueError(...)\<close>.
\<close>

definition from_string :: "string \<Rightarrow> error + Industry" where
  "from_string industry_str =
     (case industry_getitem (upper industry_str) of
        Inr i \<Rightarrow> Inr i
      | Inl KeyError \<Rightarrow> Inl InvalidIndustryString
      | Inl e \<Rightarrow> Inl e)"

section \<open>Revenue classifier (cyber\_risk\_simulator.py)\<close>

text \<open>The \<open>match\<close> of \<open>get_revenue_band_by_revenue\<close>, guard by guard in the source's order.\<close>

definition get_revenue_band_by_revenue :: "real \<Rightarrow> error + RevenueBand" where
  "get_revenue_band_by_revenue revenue =
     (if revenue < 0 then Inl InvalidRevenue
      else if revenue \<le> 10 then Inr BAND_10M
      else if revenue \<le> 100 then Inr BAND_100M
      else if revenue \<le> 500 then Inr BAND_500M
      else if revenue \<le> 1000 then Inr BAND_1B
      else Inl InvalidRevenue)"

text \<open>
  The values \<open>get_revenue_boundaries_by_band\<close> can be handed at run time: a member of
  \<open>RevenueBand\<close>, or anything else (a member of another enumeration, \<open>None\<close> as
  \<open>parse_revenue_band\<close> returns it for an unknown label, a string, a number).
\<close>

datatype py_value =
    Band RevenueBand
  | IndustryMember Industry
  | PyNone
  | PyStr string
  | PyInt int
  | PyFloat real

text \<open>Whether \<open>v.value\<close> exists: enumeration members have the attribute, the others do not.\<close>

fun getattr_value :: "py_value \<Rightarrow> error + unit" where
  "getattr_value (Band b) = Inr ()"
| "getattr_value (IndustryMember i) = Inr ()"
| "getattr_value _ = Inl AttributeError"

text \<open>
  Name resolution inside \<open>get_revenue_boundaries_by_band\<close>: the local names of the
  function, then the names bound at module level in \<open>cyber_risk_simulator.py\<close>
  (no built-in is called \<open>revenue\<close>).
\<close>

definition boundaries_locals :: "string list" where
  "boundaries_locals = [''revenue_band'']"

definition module_globals :: "string list" where
  "module_globals =
     [''np'', ''pd'', ''json'', ''datetime'', ''CostParam'', ''FrequencyParam'', ''MeanLoss'',
      ''TotalLoss'', ''RevenueBand'', ''SimulationMetrics'', ''revenue_band_dict'', ''Industry'',
      ''Tuple'', ''poisson'', ''norm'', ''logging'', ''setup_config'', ''config_dict'',
      ''stats_cache'', ''load_stats'', ''get_revenue_band_by_revenue'',
      ''get_revenue_boundaries_by_band'', ''_get_industry_revenue_params'',
      ''CyberRiskSimulator'']"

definition lookup_name :: "string list \<Rightarrow> string \<Rightarrow> error + unit" where
  "lookup_name scope name = (if name \<in> set scope then Inr () else Inl NameError)"

text \<open>
  \<open>get_revenue_boundaries_by_band\<close>. Line 53 formats \<open>revenue_band.value\<close> before the
  \<open>match\<close>; the default case formats the name \<open>revenue\<close> for the log before it
  reaches \<open>raise ValueError(...)\<close>.
\<close>

definition get_revenue_boundaries_by_band :: "py_value \<Rightarrow> error + (int \<times> int)" where
  "get_revenue_boundaries_by_band revenue_band =
     (case getattr_value revenue_band of
        Inl e \<Rightarrow> Inl e
      | Inr _ \<Rightarrow>
          (case revenue_band of
             Band BAND_10M \<Rightarrow> Inr (0, 10)
           | Band BAND_100M \<Rightarrow> Inr (10, 100)
           | Band BAND_500M \<Rightarrow> Inr (100, 500)
           | Band BAND_1B \<Rightarrow> Inr (500, 1000)
           | _ \<Rightarrow>
               (case lookup_name (boundaries_locals @ module_globals) ''revenue'' of
                  Inl e \<Rightarrow> Inl e
                | Inr _ \<Rightarrow> Inl InvalidBand)))"

section \<open>Parameter resolver\<close>

text \<open>
  The statistics file once parsed by \<open>json.load\<close>:
  industry name \<open>\<rightarrow>\<close> band label \<open>\<rightarrow>\<close> \<open>{'frequency': ..., 'cost': ...}\<close>.
\<close>

type_synonym stats = "string \<rightharpoonup> (string \<rightharpoonup> (string \<rightharpoonup> real))"

text \<open>One row of the per-attack log (\<open>data_to_append\<close>, \<open>self.results\<close>).\<close>

record row =
  simulation_id :: nat
  attack_id :: nat
  cost :: real

text \<open>
  What the module reads and writes outside the simulator object: the global
  \<open>stats_cache\<close>, the statistics file behind \<open>config_dict['stats_csv']\<close>, the state of
  the process-wide generator that \<open>poisson.rvs\<close> and \<open>norm.rvs\<close> draw from (neither call
  passes a \<open>random_state\<close>), and the CSV files written so far.
\<close>

record 'g world =
  stats_cache :: "stats option"
  stats_file :: stats
  rng :: 'g
  csv_files :: "row list list"

definition load_stats :: "'g world \<Rightarrow> stats \<times> 'g world" where
  "load_stats w =
     (case stats_cache w of
        None \<Rightarrow> (stats_file w, w\<lparr>stats_cache := Some (stats_file w)\<rparr>)
      | Some cached \<Rightarrow> (cached, w))"

text \<open>
  \<open>_get_industry_revenue_params\<close>: the industry check (line 93), then the
  classification of the revenue (line 97), then the band check (line 99), then the two
  subscripts (lines 103 and 104).
\<close>

definition get_industry_revenue_params ::
  "Industry \<Rightarrow> real \<Rightarrow> 'g world \<Rightarrow> (error + real \<times> real) \<times> 'g world" where
  "get_industry_revenue_params ind revenue_usd w =
     (let (stats, w') = load_stats w in
      case stats (lower (industry_name ind)) of
        None \<Rightarrow> (Inl UnknownIndustry, w')
      | Some bands \<Rightarrow>
          (case get_revenue_band_by_revenue revenue_usd of
             Inl e \<Rightarrow> (Inl e, w')
           | Inr revenue_band \<Rightarrow>
               (case bands (band_value revenue_band) of
                  None \<Rightarrow> (Inl UnknownBand, w')
                | Some entry \<Rightarrow>
                    (case entry ''frequency'' of
                       None \<Rightarrow> (Inl KeyError, w')
                     | Some frequency \<Rightarrow>
                         (case entry ''cost'' of
                            None \<Rightarrow> (Inl KeyError, w')
                          | Some cost_value \<Rightarrow> (Inr (frequency, cost_value), w'))))))"

section \<open>Simulation engine\<close>

record simulator =
  industry :: Industry
  revenue :: real
  num_simulations :: int
  freq_param :: real
  sev_param :: real
  results :: "row list"

text \<open>\<open>CyberRiskSimulator.__init__\<close>\<close>

definition CyberRiskSimulator_init ::
  "Industry \<Rightarrow> real \<Rightarrow> int \<Rightarrow> 'g world \<Rightarrow> (error + simulator) \<times> 'g world" where
  "CyberRiskSimulator_init ind revenue_usd n w =
     (case get_industry_revenue_params ind revenue_usd w of
        (Inl e, w') \<Rightarrow> (Inl e, w')
      | (Inr (f, c), w') \<Rightarrow>
          (Inr \<lparr>industry = ind, revenue = revenue_usd, num_simulations = n,
                freq_param = f, sev_param = c, results = []\<rparr>, w'))"

text \<open>
  The two library samplers, as functions on the generator state:
  \<open>poisson_rvs src mu size g\<close> is \<open>poisson.rvs(mu, size=size)\<close> and
  \<open>norm_rvs src loc scale g\<close> is \<open>norm.rvs(loc, scale)\<close>. The array of counts is
  whatever the sampler returns (the tests patch it with an array of five).
\<close>

record 'g rand_source =
  poisson_rvs :: "real \<Rightarrow> int \<Rightarrow> 'g \<Rightarrow> nat list \<times> 'g"
  norm_rvs :: "real \<Rightarrow> real \<Rightarrow> 'g \<Rightarrow> real \<times> 'g"

definition simulate_attacks ::
  "'g rand_source \<Rightarrow> simulator \<Rightarrow> 'g world \<Rightarrow> nat list \<times> 'g world" where
  "simulate_attacks src sim w =
     (let (attack_counts, g) = poisson_rvs src (freq_param sim) (num_simulations sim) (rng w)
      in (attack_counts, w\<lparr>rng := g\<rparr>))"

text \<open>
  The inner loop of \<open>_simulate_losses\<close>, \<open>for attack_id in range(attack_count)\<close>, over
  the state (\<open>losses\<close>, \<open>data_to_append\<close>, generator). The index \<open>i\<close> comes from
  enumerating \<open>attack_counts\<close>, and \<open>losses\<close> has the length of that array, so
  \<open>losses[i]\<close> is always in range.
\<close>

fun attack_loop ::
  "'g rand_source \<Rightarrow> real \<Rightarrow> nat \<Rightarrow> nat list \<Rightarrow> real list \<times> row list \<times> 'g
     \<Rightarrow> real list \<times> row list \<times> 'g" where
  "attack_loop src sev i [] st = st"
| "attack_loop src sev i (a # range_rest) (losses, data_to_append, g) =
     (let (c, g') = norm_rvs src sev (sev * 0.1) g
      in attack_loop src sev i range_rest
           (losses[i := losses ! i + c],
            data_to_append @ [\<lparr>simulation_id = i + 1, attack_id = a + 1, cost = c\<rparr>],
            g'))"

text \<open>The outer loop, \<open>for i, attack_count in enumerate(attack_counts)\<close>.\<close>

fun simulation_loop ::
  "'g rand_source \<Rightarrow> real \<Rightarrow> (nat \<times> nat) list \<Rightarrow> real list \<times> row list \<times> 'g
     \<Rightarrow> real list \<times> row list \<times> 'g" where
  "simulation_loop src sev [] st = st"
| "simulation_loop src sev ((i, attack_count) # enumerate_rest) st =
     simulation_loop src sev enumerate_rest (attack_loop src sev i [0..<attack_count] st)"

definition simulate_losses ::
  "'g rand_source \<Rightarrow> simulator \<Rightarrow> nat list \<Rightarrow> 'g world
     \<Rightarrow> real list \<times> simulator \<times> 'g world" where
  "simulate_losses src sim attack_counts w =
     (let (losses, data_to_append, g) =
            simulation_loop src (sev_param sim)
              (zip [0..<length attack_counts] attack_counts)
              (replicate (length attack_counts) 0, [], rng w)
      in (losses, sim\<lparr>results := results sim @ data_to_append\<rparr>, w\<lparr>rng := g\<rparr>))"

text \<open>\<open>_save_results_to_csv\<close>: the whole of \<open>self.results\<close> goes to a new file.\<close>

definition save_results_to_csv :: "simulator \<Rightarrow> 'g world \<Rightarrow> 'g world" where
  "save_results_to_csv sim w = w\<lparr>csv_files := csv_files w @ [results sim]\<rparr>"

subsection \<open>The numpy reductions\<close>

definition np_sum :: "real list \<Rightarrow> real" where
  "np_sum a = foldl (+) 0 a"

definition np_mean :: "real list \<Rightarrow> real" where
  "np_mean a = np_sum a / real (length a)"

text \<open>The middle of the sorted array, the mean of the two middle values for an even size.\<close>

definition np_median :: "real list \<Rightarrow> real" where
  "np_median a =
     (let part = sort a; n = length a in
      if odd n then part ! (n div 2)
      else np_mean [part ! (n div 2 - 1), part ! (n div 2)])"

text \<open>\<open>sqrt(mean(abs(a - mean(a)) ** 2))\<close>, with numpy's default \<open>ddof = 0\<close>.\<close>

definition np_std :: "real list \<Rightarrow> real" where
  "np_std a = sqrt (np_mean (map (\<lambda>x. \<bar>x - np_mean a\<bar> ^ 2) a))"

text \<open>\<open>np.min\<close> and \<open>np.max\<close> have no identity: an empty array raises \<open>ValueError\<close>.\<close>

definition np_min :: "real list \<Rightarrow> error + real" where
  "np_min a = (case a of [] \<Rightarrow> Inl EmptyReduction | x # xs \<Rightarrow> Inr (fold min xs x))"

definition np_max :: "real list \<Rightarrow> error + real" where
  "np_max a = (case a of [] \<Rightarrow> Inl EmptyReduction | x # xs \<Rightarrow> Inr (fold max xs x))"

text \<open>
  \<open>np.percentile(a, q)\<close> with the default method \<open>linear\<close>: the virtual index
  \<open>(n - 1) * q / 100\<close> in the sorted array, its floor and the next index (clipped to the
  last one), and the interpolation between the two entries.
\<close>

definition np_percentile :: "real list \<Rightarrow> real \<Rightarrow> real" where
  "np_percentile a q =
     (let arr = sort a; n = length a;
          virtual_index = real (n - 1) * (q / 100);
          previous_index = nat \<lfloor>virtual_index\<rfloor>;
          next_index = min (previous_index + 1) (n - 1);
          gamma = virtual_index - real previous_index
      in arr ! previous_index + (arr ! next_index - arr ! previous_index) * gamma)"

record SimulationMetrics =
  total_loss :: real
  mean_loss :: real
  median_loss :: real
  std_dev_loss :: real
  min_loss :: real
  max_loss :: real
  percentile_95_loss :: real

text \<open>
  Lines 210 to 226 of \<open>run_simulation\<close>. On an empty array \<open>np.sum\<close>, \<open>np.mean\<close>,
  \<open>np.median\<close> and \<open>np.std\<close> return (0 or NaN, with a warning) and \<open>np.min\<close> raises, so
  the values of the first four on \<open>[]\<close> are never seen.
\<close>

definition compute_metrics :: "real list \<Rightarrow> error + SimulationMetrics" where
  "compute_metrics losses =
     (case np_min losses of
        Inl e \<Rightarrow> Inl e
      | Inr mn \<Rightarrow>
          (case np_max losses of
             Inl e \<Rightarrow> Inl e
           | Inr mx \<Rightarrow>
               Inr \<lparr>total_loss = np_sum losses,
                    mean_loss = np_mean losses,
                    median_loss = np_median losses,
                    std_dev_loss = np_std losses,
                    min_loss = mn,
                    max_loss = mx,
                    percentile_95_loss = np_percentile losses 95\<rparr>))"

text \<open>
  \<open>run_simulation\<close>: the result (metrics or exception), the simulator object and the
  world after the call.
\<close>

definition run_simulation ::
  "'g rand_source \<Rightarrow> simulator \<Rightarrow> bool \<Rightarrow> 'g world
     \<Rightarrow> (error + SimulationMetrics) \<times> simulator \<times> 'g world" where
  "run_simulation src sim save_to_csv w =
     (let (attack_counts, w1) = simulate_attacks src sim w;
          (losses, sim1, w2) = simulate_losses src sim attack_counts w1;
          w3 = (if save_to_csv then save_results_to_csv sim1 w2 else w2)
      in (compute_metrics losses, sim1, w3))"

subsection \<open>Calling the engine\<close>












subsection \<open>The samplers of the regression test\<close>

text \<open>
  \<open>test_run_simulation\<close> patches \<open>poisson.rvs\<close> to return \<open>[1, 0, 2, 3, 1]\<close>,
  \<open>norm.rvs\<close> to return 5.2 and the parameters to \<open>(0.3, 5.2)\<close>.
\<close>

definition test_source :: "unit rand_source" where
  "test_source =
     \<lparr>poisson_rvs = (\<lambda>mu size g. ([1, 0, 2, 3, 1], g)),
      norm_rvs = (\<lambda>loc scale g. (5.2, g))\<rparr>"

definition test_simulator :: simulator where
  "test_simulator =
     \<lparr>industry = HEALTHCARE, revenue = 100, num_simulations = 10000,
      freq_param = 0.3, sev_param = 5.2, results = []\<rparr>"

definition test_world :: "unit world" where
  "test_world = \<lparr>stats_cache = None, stats_file = Map.empty, rng = (), csv_files = []\<rparr>"

subsection \<open>The regression fixtures and two further samplers\<close>

text \<open>The table that \<open>test_get_industry_revenue_params\<close> patches \<open>load_stats\<close> with.\<close>

definition test_stats :: stats where
  "test_stats =
     [''finance'' \<mapsto>
        [''10M'' \<mapsto> [''frequency'' \<mapsto> 5, ''cost'' \<mapsto> 1000],
         ''100M'' \<mapsto> [''frequency'' \<mapsto> 10, ''cost'' \<mapsto> 2000],
         ''500M'' \<mapsto> [''frequency'' \<mapsto> 15, ''cost'' \<mapsto> 3000],
         ''1B'' \<mapsto> [''frequency'' \<mapsto> 20, ''cost'' \<mapsto> 4000]]]"

definition stats_world :: "unit world" where
  "stats_world = \<lparr>stats_cache = None, stats_file = test_stats, rng = (), csv_files = []\<rparr>"

text \<open>A sampler whose single run has no attack.\<close>

definition idle_source :: "unit rand_source" where
  "idle_source =
     \<lparr>poisson_rvs = (\<lambda>mu size g. ([0], g)),
      norm_rvs = (\<lambda>loc scale g. (loc, g))\<rparr>"

text \<open>
  A sampler with a state, a counter that every call advances: one attack in each run,
  and the \<open>k\<close>-th variate of the process lies \<open>20 k\<close> standard deviations below
  the mean.
\<close>

definition counter_source :: "nat rand_source" where
  "counter_source =
     \<lparr>poisson_rvs = (\<lambda>mu size g. (replicate (nat size) 1, Suc g)),
      norm_rvs = (\<lambda>loc scale g. (loc - 20 * scale * real g, Suc g))\<rparr>"


definition counter_world :: "nat world" where
  "counter_world = \<lparr>stats_cache = None, stats_file = Map.empty, rng = 0, csv_files = []\<rparr>"



section \<open>Reference description of the sampling\<close>

text \<open>
  \<open>draw_n d n g\<close> takes \<open>n\<close> successive variates from the sampler \<open>d\<close>, threading
  the generator; \<open>draw_runs d counts g\<close> does so run after run, \<open>counts ! i\<close> variates
  for run \<open>i\<close>.
\<close>

fun draw_n :: "('g \<Rightarrow> real \<times> 'g) \<Rightarrow> nat \<Rightarrow> 'g \<Rightarrow> real list \<times> 'g" where
  "draw_n d 0 g = ([], g)"
| "draw_n d (Suc n) g =
     (let (c, g') = d g; (cs, g'') = draw_n d n g' in (c # cs, g''))"

fun draw_runs :: "('g \<Rightarrow> real \<times> 'g) \<Rightarrow> nat list \<Rightarrow> 'g \<Rightarrow> real list list \<times> 'g" where
  "draw_runs d [] g = ([], g)"
| "draw_runs d (k # ks) g =
     (let (cs, g') = draw_n d k g; (css, g'') = draw_runs d ks g' in (cs # css, g''))"

text \<open>
  The rows logged for those variates: run and attack numbers start at 1, and the rows of
  run \<open>i\<close> come before those of run \<open>i + 1\<close>.
\<close>

definition attack_rows :: "nat \<Rightarrow> nat list \<Rightarrow> real list \<Rightarrow> row list" where
  "attack_rows i ids cs =
     map (\<lambda>(a, c). \<lparr>simulation_id = i + 1, attack_id = a + 1, cost = c\<rparr>) (zip ids cs)"

definition log_rows :: "nat \<Rightarrow> real list list \<Rightarrow> row list" where
  "log_rows k css =
     concat (map (\<lambda>(i, cs). attack_rows i [0..<length cs] cs) (zip [k..<k + length css] css))"

text \<open>The array \<open>losses\<close> of one call of \<open>run_simulation\<close>.\<close>

definition total_loss_per_run :: "'g rand_source \<Rightarrow> simulator \<Rightarrow> 'g world \<Rightarrow> real list" where
  "total_loss_per_run src sim w =
     (let (attack_counts, w1) = simulate_attacks src sim w
      in fst (simulate_losses src sim attack_counts w1))"

section \<open>Properties of the revenue classifier\<close>

lemma band_cases:
  "get_revenue_band_by_revenue r = Inr BAND_10M \<longleftrightarrow> 0 \<le> r \<and> r \<le> 10"
  "get_revenue_band_by_revenue r = Inr BAND_100M \<longleftrightarrow> 10 < r \<and> r \<le> 100"
  "get_revenue_band_by_revenue r = Inr BAND_500M \<longleftrightarrow> 100 < r \<and> r \<le> 500"
  "get_revenue_band_by_revenue r = Inr BAND_1B \<longleftrightarrow> 500 < r \<and> r \<le> 1000"
  by (auto simp: get_revenue_band_by_revenue_def)

lemma band_error:
  "get_revenue_band_by_revenue r = Inl e \<longleftrightarrow> e = InvalidRevenue \<and> (r < 0 \<or> 1000 < r)"
  by (auto simp: get_revenue_band_by_revenue_def)

text \<open>
  C1. \<open>get_revenue_band_by_revenue r\<close> returns a band exactly when \<open>0 \<le> r \<le> 1000\<close> and
  raises the invalid-revenue error otherwise. Each band is the set of revenues up to and
  including its upper edge and above the previous edge, so the four bands are pairwise
  disjoint and cover exactly \<open>[0, 1000]\<close>; revenue 0 and revenue 10 fall in the first
  band, revenue 1000 in the last.
\<close>

theorem classify_total_on_range:
  "((\<exists>b. get_revenue_band_by_revenue r = Inr b) \<longleftrightarrow> 0 \<le> r \<and> r \<le> 1000)
   \<and> (\<not> (0 \<le> r \<and> r \<le> 1000) \<longrightarrow> get_revenue_band_by_revenue r = Inl InvalidRevenue)
   \<and> (get_revenue_band_by_revenue r = Inr BAND_10M \<longleftrightarrow> 0 \<le> r \<and> r \<le> 10)
   \<and> (get_revenue_band_by_revenue r = Inr BAND_100M \<longleftrightarrow> 10 < r \<and> r \<le> 100)
   \<and> (get_revenue_band_by_revenue r = Inr BAND_500M \<longleftrightarrow> 100 < r \<and> r \<le> 500)
   \<and> (get_revenue_band_by_revenue r = Inr BAND_1B \<longleftrightarrow> 500 < r \<and> r \<le> 1000)
   \<and> get_revenue_band_by_revenue 0 = Inr BAND_10M
   \<and> get_revenue_band_by_revenue 10 = Inr BAND_10M
   \<and> get_revenue_band_by_revenue 1000 = Inr BAND_1B"
proof -
  have total: "(\<exists>b. get_revenue_band_by_revenue r = Inr b) \<longleftrightarrow> 0 \<le> r \<and> r \<le> 1000"
    by (auto simp: get_revenue_band_by_revenue_def)
  have err: "\<not> (0 \<le> r \<and> r \<le> 1000) \<longrightarrow> get_revenue_band_by_revenue r = Inl InvalidRevenue"
    by (auto simp: get_revenue_band_by_revenue_def)
  have edges: "get_revenue_band_by_revenue 0 = Inr BAND_10M"
    "get_revenue_band_by_revenue 10 = Inr BAND_10M"
    "get_revenue_band_by_revenue 1000 = Inr BAND_1B"
    by (simp_all add: get_revenue_band_by_revenue_def)
  from total err edges band_cases [of r] show ?thesis by blast
qed

theorem classify_total_on_range_witness:
  "get_revenue_band_by_revenue (-1) = Inl InvalidRevenue
   \<and> get_revenue_band_by_revenue 1001 = Inl InvalidRevenue
   \<and> get_revenue_band_by_revenue 50 = Inr BAND_100M"
  using classify_total_on_range [of "-1"] classify_total_on_range [of 1001]
    classify_total_on_range [of 50]
  by simp

text \<open>
  C9. For every valid revenue \<open>r\<close> (\<open>0 \<le> r \<le> 1000\<close>) the classifier returns a band, the
  boundaries of that band are returned as a pair \<open>(lo, hi)\<close>, and \<open>lo \<le> r \<le> hi\<close>.
\<close>

theorem bounds_of_classify_contain:
  assumes "0 \<le> r" and "r \<le> 1000"
  shows "\<exists>b lo hi. get_revenue_band_by_revenue r = Inr b
           \<and> get_revenue_boundaries_by_band (Band b) = Inr (lo, hi)
           \<and> real_of_int lo \<le> r \<and> r \<le> real_of_int hi"
  using assms
  by (auto simp: get_revenue_band_by_revenue_def get_revenue_boundaries_by_band_def)

theorem bounds_of_classify_contain_witness:
  "\<exists>b lo hi. get_revenue_band_by_revenue 10 = Inr b
           \<and> get_revenue_boundaries_by_band (Band b) = Inr (lo, hi)
           \<and> real_of_int lo \<le> 10 \<and> 10 \<le> real_of_int hi"
  using bounds_of_classify_contain [of 10] by simp

text \<open>
  C8. On the four members of \<open>RevenueBand\<close> \<open>get_revenue_boundaries_by_band\<close> returns
  the boundary pairs. On any other input it was meant to raise the invalid-band
  \<open>ValueError\<close>, and never does: \<open>None\<close> (what \<open>parse_revenue_band\<close> returns for an
  unknown label) fails with \<open>AttributeError\<close> at the debug line, and a member of another
  enumeration fails with \<open>NameError\<close> in the default case, whose log line formats the
  undefined name \<open>revenue\<close>.
\<close>

theorem boundaries_other_input:
  "get_revenue_boundaries_by_band (Band BAND_10M) = Inr (0, 10)
   \<and> get_revenue_boundaries_by_band (Band BAND_100M) = Inr (10, 100)
   \<and> get_revenue_boundaries_by_band (Band BAND_500M) = Inr (100, 500)
   \<and> get_revenue_boundaries_by_band (Band BAND_1B) = Inr (500, 1000)
   \<and> get_revenue_boundaries_by_band PyNone = Inl AttributeError
   \<and> get_revenue_boundaries_by_band (IndustryMember FINANCE) = Inl NameError
   \<and> (\<forall>v. get_revenue_boundaries_by_band v \<noteq> Inl InvalidBand)"
proof -
  have no_name: "lookup_name (boundaries_locals @ module_globals) ''revenue'' = Inl NameError"
    by (simp add: lookup_name_def boundaries_locals_def module_globals_def)
  have never: "get_revenue_boundaries_by_band v \<noteq> Inl InvalidBand" for v
    by (cases v) (simp_all add: get_revenue_boundaries_by_band_def no_name split: RevenueBand.split)
  show ?thesis
    using never by (simp add: get_revenue_boundaries_by_band_def no_name)
qed

section \<open>Properties of the parsers\<close>

lemma parse_revenue_band_Some:
  "parse_revenue_band s = Some b \<longleftrightarrow> s = band_value b"
  by (cases b) (auto simp: parse_revenue_band_def revenue_band_dict_def split: if_splits)

lemma industry_getitem_name: "industry_getitem (industry_name i) = Inr i"
  by (cases i) (simp_all add: industry_getitem_def)

lemma industry_getitem_other:
  "(\<forall>i. key \<noteq> industry_name i) \<Longrightarrow> industry_getitem key = Inl KeyError"
proof -
  assume other: "\<forall>i. key \<noteq> industry_name i"
  have "key \<noteq> industry_name HEALTHCARE" "key \<noteq> industry_name FINANCE"
    "key \<noteq> industry_name RETAIL" "key \<noteq> industry_name MANUFACTURING"
    "key \<noteq> industry_name CONSTRUCTION"
    using other by blast+
  then show ?thesis
    by (simp add: industry_getitem_def)
qed

text \<open>
  C10. \<open>parse_revenue_band\<close> returns the band of each of the four labels and \<open>None\<close> for
  every other string; it has no failing branch. \<open>Industry.from_string\<close> returns the member
  whose name is the upper-cased string and raises \<open>ValueError\<close> for a string that names
  no member.
\<close>

theorem parse_revenue_band_total:
  "parse_revenue_band ''10M'' = Some BAND_10M
   \<and> parse_revenue_band ''100M'' = Some BAND_100M
   \<and> parse_revenue_band ''500M'' = Some BAND_500M
   \<and> parse_revenue_band ''1B'' = Some BAND_1B
   \<and> (s \<notin> {''10M'', ''100M'', ''500M'', ''1B''} \<longrightarrow> parse_revenue_band s = None)
   \<and> (upper s = industry_name i \<longrightarrow> from_string s = Inr i)
   \<and> ((\<forall>j. upper s \<noteq> industry_name j) \<longrightarrow>
        from_string s = Inl InvalidIndustryString
        \<and> exception_class InvalidIndustryString = PyValueError)"
proof -
  have labels: "parse_revenue_band ''10M'' = Some BAND_10M"
    "parse_revenue_band ''100M'' = Some BAND_100M"
    "parse_revenue_band ''500M'' = Some BAND_500M"
    "parse_revenue_band ''1B'' = Some BAND_1B"
    by (simp_all add: parse_revenue_band_Some)
  have other: "s \<notin> {''10M'', ''100M'', ''500M'', ''1B''} \<longrightarrow> parse_revenue_band s = None"
  proof
    assume notin: "s \<notin> {''10M'', ''100M'', ''500M'', ''1B''}"
    show "parse_revenue_band s = None"
    proof (cases "parse_revenue_band s")
      case None
      then show ?thesis .
    next
      case (Some b)
      then have "s = band_value b" by (simp add: parse_revenue_band_Some)
      with notin show ?thesis by (cases b) simp_all
    qed
  qed
  have member: "upper s = industry_name i \<longrightarrow> from_string s = Inr i"
    by (simp add: from_string_def industry_getitem_name)
  have invalid: "(\<forall>j. upper s \<noteq> industry_name j) \<longrightarrow>
        from_string s = Inl InvalidIndustryString
        \<and> exception_class InvalidIndustryString = PyValueError"
    by (simp add: from_string_def industry_getitem_other)
  from labels other member invalid show ?thesis by blast
qed

theorem parse_revenue_band_total_witness:
  "parse_revenue_band ''2B'' = None
   \<and> from_string ''finance'' = Inr FINANCE
   \<and> from_string ''banking'' = Inl InvalidIndustryString"
proof -
  have none: "parse_revenue_band ''2B'' = None"
    using parse_revenue_band_total [of "''2B''" FINANCE] by simp
  have fin: "upper ''finance'' = industry_name FINANCE"
    by (simp add: upper_def upper_char_def)
  have ok: "from_string ''finance'' = Inr FINANCE"
    using parse_revenue_band_total [of "''finance''" FINANCE] fin by blast
  have "upper ''banking'' \<noteq> industry_name j" for j
    by (cases j) (simp_all add: upper_def upper_char_def)
  then have bad: "from_string ''banking'' = Inl InvalidIndustryString"
    using parse_revenue_band_total [of "''banking''" FINANCE] by blast
  from none ok bad show ?thesis by blast
qed

section \<open>Properties of the parameter resolver\<close>

lemma params_unknown_industry:
  "fst (get_industry_revenue_params i r w) = Inl UnknownIndustry
     \<longleftrightarrow> fst (load_stats w) (lower (industry_name i)) = None"
  by (auto simp: get_industry_revenue_params_def get_revenue_band_by_revenue_def
      split: prod.splits option.splits sum.splits if_splits)

lemma params_invalid_revenue:
  "fst (get_industry_revenue_params i r w) = Inl InvalidRevenue
     \<longleftrightarrow> fst (load_stats w) (lower (industry_name i)) \<noteq> None \<and> (r < 0 \<or> 1000 < r)"
  by (auto simp: get_industry_revenue_params_def get_revenue_band_by_revenue_def
      split: prod.splits option.splits sum.splits if_splits)

lemma test_stats_lookup:
  "fst (load_stats stats_world) (lower (industry_name HEALTHCARE)) = None"
  "fst (load_stats stats_world) (lower (industry_name FINANCE)) \<noteq> None"
  by (simp_all add: load_stats_def stats_world_def test_stats_def lower_def lower_char_def)

lemma test_params: "fst (get_industry_revenue_params FINANCE 50 stats_world) = Inr (10, 2000)"
  by (simp add: get_industry_revenue_params_def load_stats_def stats_world_def test_stats_def
      lower_def lower_char_def get_revenue_band_by_revenue_def)

text \<open>
  C3 (amended). \<open>_get_industry_revenue_params\<close> checks the industry key before it
  classifies the revenue. It fails with the unknown-industry error exactly when the key is
  absent from the table, whatever the revenue is, in range or not; it fails with the
  invalid-revenue error exactly when the key is present and the revenue is below 0 or
  above 1000.
\<close>

theorem resolve_industry_before_revenue:
  "(fst (get_industry_revenue_params i r w) = Inl UnknownIndustry
      \<longleftrightarrow> fst (load_stats w) (lower (industry_name i)) = None)
   \<and> (fst (get_industry_revenue_params i r w) = Inl InvalidRevenue
      \<longleftrightarrow> fst (load_stats w) (lower (industry_name i)) \<noteq> None \<and> (r < 0 \<or> 1000 < r))"
  using params_unknown_industry [of i r w] params_invalid_revenue [of i r w] by blast

theorem resolve_industry_before_revenue_witness:
  "fst (get_industry_revenue_params FINANCE 2000 stats_world) = Inl InvalidRevenue
   \<and> fst (get_industry_revenue_params HEALTHCARE 50 stats_world) = Inl UnknownIndustry"
  using resolve_industry_before_revenue [of FINANCE 2000 stats_world]
    resolve_industry_before_revenue [of HEALTHCARE 50 stats_world] test_stats_lookup
  by simp

text \<open>
  The claim as first stated fails: for an industry that the table does not list and the
  out-of-range revenue \<open>-1\<close> the resolver reports the unknown industry, not the invalid
  revenue.
\<close>

theorem resolve_classifies_first_counterexample:
  "get_revenue_band_by_revenue (- 1) = Inl InvalidRevenue
   \<and> fst (get_industry_revenue_params HEALTHCARE (- 1) stats_world) = Inl UnknownIndustry
   \<and> fst (get_industry_revenue_params HEALTHCARE (- 1) stats_world) \<noteq> Inl InvalidRevenue"
  using test_stats_lookup(1)
  by (simp add: params_unknown_industry params_invalid_revenue get_revenue_band_by_revenue_def)

section \<open>Properties of the constructor\<close>

lemma init_result:
  "fst (CyberRiskSimulator_init i r n w) =
     (case fst (get_industry_revenue_params i r w) of
        Inl e \<Rightarrow> Inl e
      | Inr (f, c) \<Rightarrow> Inr \<lparr>industry = i, revenue = r, num_simulations = n,
                            freq_param = f, sev_param = c, results = []\<rparr>)"
  by (simp add: CyberRiskSimulator_init_def split: prod.splits sum.splits)

text \<open>
  C4 (amended). \<open>CyberRiskSimulator.__init__\<close> does not look at the run count: it fails
  exactly when the parameter resolution fails, with the same error, for every \<open>n\<close>; and
  when the resolution succeeds the simulator is built with \<open>num_simulations = n\<close>, also for
  \<open>n < 1\<close>.
\<close>

theorem init_ignores_run_count:
  "(fst (CyberRiskSimulator_init i r n w) = Inl e
      \<longleftrightarrow> fst (get_industry_revenue_params i r w) = Inl e)
   \<and> (fst (get_industry_revenue_params i r w) = Inr (f, c) \<longrightarrow>
        fst (CyberRiskSimulator_init i r n w)
          = Inr \<lparr>industry = i, revenue = r, num_simulations = n,
                 freq_param = f, sev_param = c, results = []\<rparr>)"
  by (auto simp: init_result split: sum.splits)

theorem init_ignores_run_count_witness:
  "fst (CyberRiskSimulator_init FINANCE 50 (- 3) stats_world)
     = Inr \<lparr>industry = FINANCE, revenue = 50, num_simulations = - 3,
            freq_param = 10, sev_param = 2000, results = []\<rparr>"
  using init_ignores_run_count [where i = FINANCE and r = 50 and n = "- 3" and w = stats_world
      and f = 10 and c = 2000] test_params
  by simp

text \<open>The claim as first stated fails: construction with a run count of 0 succeeds.\<close>

theorem init_run_count_zero_counterexample:
  "fst (CyberRiskSimulator_init FINANCE 50 0 stats_world)
     = Inr \<lparr>industry = FINANCE, revenue = 50, num_simulations = 0,
            freq_param = 10, sev_param = 2000, results = []\<rparr>"
  using test_params by (simp add: init_result)

section \<open>The loops of \<open>_simulate_losses\<close>\<close>

lemma draw_n_length: "draw_n d n g = (cs, g') \<Longrightarrow> length cs = n"
  by (induction n arbitrary: g cs) (auto split: prod.splits)

lemma draw_runs_lengths: "draw_runs d ks g = (css, g') \<Longrightarrow> map length css = ks"
  by (induction ks arbitrary: g css) (auto split: prod.splits dest: draw_n_length)

lemma log_rows_Cons:
  "log_rows k (cs # css) = attack_rows k [0..<length cs] cs @ log_rows (Suc k) css"
  by (simp add: log_rows_def upt_conv_Cons del: upt_Suc)

lemma log_rows_length: "length (log_rows k css) = sum_list (map length css)"
  by (induction css arbitrary: k) (simp_all add: log_rows_Cons, simp_all add: log_rows_def attack_rows_def)

lemma attack_loop_draws:
  "i < length losses \<Longrightarrow> draw_n (norm_rvs src sev (sev * 0.1)) (length ids) g = (cs, g') \<Longrightarrow>
   attack_loop src sev i ids (losses, data, g)
     = (losses[i := losses ! i + sum_list cs], data @ attack_rows i ids cs, g')"
proof (induction ids arbitrary: losses data g cs g')
  case Nil
  then show ?case by (simp add: attack_rows_def)
next
  case (Cons a ids)
  obtain c g1 where d: "norm_rvs src sev (sev * 0.1) g = (c, g1)" by (cases "norm_rvs src sev (sev * 0.1) g")
  obtain cs1 g2 where r: "draw_n (norm_rvs src sev (sev * 0.1)) (length ids) g1 = (cs1, g2)"
    by (cases "draw_n (norm_rvs src sev (sev * 0.1)) (length ids) g1")
  from Cons.prems(2) d r have cs: "cs = c # cs1" and g': "g' = g2" by auto
  have len: "i < length (losses[i := losses ! i + c])" using Cons.prems(1) by simp
  have step: "attack_loop src sev i (a # ids) (losses, data, g)
      = attack_loop src sev i ids
          (losses[i := losses ! i + c],
           data @ [\<lparr>simulation_id = i + 1, attack_id = a + 1, cost = c\<rparr>], g1)"
    using d by simp
  show ?case
    unfolding step
      Cons.IH [OF len r, of "data @ [\<lparr>simulation_id = i + 1, attack_id = a + 1, cost = c\<rparr>]"]
    using Cons.prems(1) by (simp add: cs g' attack_rows_def add.assoc)
qed

lemma simulation_loop_draws:
  "length pre = k \<Longrightarrow> draw_runs (norm_rvs src sev (sev * 0.1)) ks g = (css, g') \<Longrightarrow>
   simulation_loop src sev (zip [k..<k + length ks] ks) (pre @ replicate (length ks) 0, data, g)
     = (pre @ map sum_list css, data @ log_rows k css, g')"
proof (induction ks arbitrary: k pre data g css g')
  case Nil
  then show ?case by (simp add: log_rows_def)
next
  case (Cons c ks)
  obtain cs g1 where d: "draw_n (norm_rvs src sev (sev * 0.1)) c g = (cs, g1)"
    by (cases "draw_n (norm_rvs src sev (sev * 0.1)) c g")
  obtain css1 g2 where r: "draw_runs (norm_rvs src sev (sev * 0.1)) ks g1 = (css1, g2)"
    by (cases "draw_runs (norm_rvs src sev (sev * 0.1)) ks g1")
  from Cons.prems(2) d r have css: "css = cs # css1" and g': "g' = g2" by auto
  have lcs: "length cs = c" using d by (rule draw_n_length)
  have zip_eq: "zip [k..<k + length (c # ks)] (c # ks) = (k, c) # zip [Suc k..<Suc k + length ks] ks"
    by (simp add: upt_conv_Cons del: upt_Suc)
  have inner: "attack_loop src sev k [0..<c] (pre @ replicate (length (c # ks)) 0, data, g)
      = ((pre @ [sum_list cs]) @ replicate (length ks) 0, data @ attack_rows k [0..<c] cs, g1)"
    using attack_loop_draws [of k "pre @ replicate (length (c # ks)) 0" src sev "[0..<c]" g cs g1 data]
      d Cons.prems(1)
    by (simp add: nth_append list_update_append)
  have rows: "log_rows k (cs # css1) = attack_rows k [0..<c] cs @ log_rows (Suc k) css1"
    using log_rows_Cons [of k cs css1] lcs by simp
  have IH: "simulation_loop src sev (zip [Suc k..<Suc k + length ks] ks)
      ((pre @ [sum_list cs]) @ replicate (length ks) 0, data @ attack_rows k [0..<c] cs, g1)
      = ((pre @ [sum_list cs]) @ map sum_list css1, (data @ attack_rows k [0..<c] cs) @ log_rows (Suc k) css1, g2)"
    using Cons.prems(1) by (intro Cons.IH [OF _ r]) simp
  show ?case
    unfolding zip_eq simulation_loop.simps inner IH
    by (simp add: css g' rows)
qed

lemma simulate_losses_draws:
  assumes "draw_runs (norm_rvs src (sev_param sim) (sev_param sim * 0.1)) attack_counts (rng w) = (css, g')"
  shows "simulate_losses src sim attack_counts w
     = (map sum_list css, sim\<lparr>results := results sim @ log_rows 0 css\<rparr>, w\<lparr>rng := g'\<rparr>)"
  using simulation_loop_draws [of "[]" 0 src "sev_param sim" attack_counts "rng w" css g' "[]"] assms
  by (simp add: simulate_losses_def)

lemma simulate_losses_length:
  "length (fst (simulate_losses src sim attack_counts w)) = length attack_counts"
proof -
  obtain css g' where d: "draw_runs (norm_rvs src (sev_param sim) (sev_param sim * 0.1)) attack_counts (rng w) = (css, g')"
    by (cases "draw_runs (norm_rvs src (sev_param sim) (sev_param sim * 0.1)) attack_counts (rng w)")
  have "length css = length attack_counts" using draw_runs_lengths [OF d] by (metis length_map)
  then show ?thesis by (simp add: simulate_losses_draws [OF d])
qed

text \<open>
  C5. \<open>_simulate_losses\<close> draws, run after run, exactly \<open>attack_counts ! i\<close> variates
  for run \<open>i\<close>, each by one call of \<open>norm.rvs\<close> with mean \<open>sev_param\<close> and standard
  deviation \<open>0.1 * sev_param\<close>; the loss of a run is the plain sum of its variates, and
  each variate is logged as it was drawn. Nothing is clamped: a negative variate lowers
  the total.
\<close>

theorem simulate_losses_one_draw_per_attack:
  assumes "draw_runs (norm_rvs src (sev_param sim) (0.1 * sev_param sim)) attack_counts (rng w)
             = (css, g')"
  shows "simulate_losses src sim attack_counts w
           = (map sum_list css, sim\<lparr>results := results sim @ log_rows 0 css\<rparr>, w\<lparr>rng := g'\<rparr>)
         \<and> map length css = attack_counts"
proof -
  have d: "draw_runs (norm_rvs src (sev_param sim) (sev_param sim * 0.1)) attack_counts (rng w)
             = (css, g')"
    using assms by (simp add: mult.commute)
  from simulate_losses_draws [OF d] draw_runs_lengths [OF d] show ?thesis by simp
qed

theorem simulate_losses_one_draw_per_attack_witness:
  "simulate_losses counter_source test_simulator [1, 2] counter_world
     = ([26/5, - (104/5)],
        test_simulator\<lparr>results :=
          [\<lparr>simulation_id = 1, attack_id = 1, cost = 26/5\<rparr>,
           \<lparr>simulation_id = 2, attack_id = 1, cost = - (26/5)\<rparr>,
           \<lparr>simulation_id = 2, attack_id = 2, cost = - (78/5)\<rparr>]\<rparr>,
        counter_world\<lparr>rng := 3\<rparr>)"
proof -
  have "draw_runs (norm_rvs counter_source (sev_param test_simulator) (0.1 * sev_param test_simulator))
          [1, 2] (rng counter_world) = ([[26/5], [- (26/5), - (78/5)]], 3)"
    by (simp add: counter_source_def test_simulator_def counter_world_def numeral_2_eq_2)
  from simulate_losses_one_draw_per_attack [OF this] show ?thesis
    by (simp add: log_rows_def attack_rows_def test_simulator_def upt_rec)
qed

section \<open>The metrics\<close>

lemma foldl_plus_sum_list: "foldl (+) (z::real) a = z + sum_list a"
  by (induction a arbitrary: z) simp_all

lemma np_sum_eq: "np_sum a = sum_list a"
  by (simp add: np_sum_def foldl_plus_sum_list)

lemma np_min_eq: "a \<noteq> [] \<Longrightarrow> np_min a = Inr (Min (set a))"
  by (cases a) (simp_all add: np_min_def Min.set_eq_fold del: set_simps)

lemma np_max_eq: "a \<noteq> [] \<Longrightarrow> np_max a = Inr (Max (set a))"
  by (cases a) (simp_all add: np_max_def Max.set_eq_fold del: set_simps)

lemma np_median_eq:
  "a \<noteq> [] \<Longrightarrow>
   np_median a = (sort a ! ((length a - 1) div 2) + sort a ! (length a div 2)) / 2"
proof -
  assume ne: "a \<noteq> []"
  then have pos: "0 < length a" by simp
  show ?thesis
  proof (cases "odd (length a)")
    case True
    then have "(length a - 1) div 2 = length a div 2"
      by (metis dvd_mult_div_cancel even_diff_nat odd_one odd_two_times_div_two_nat nonzero_mult_div_cancel_left zero_neq_numeral)
    with True show ?thesis by (simp add: np_median_def Let_def)
  next
    case False
    then have "(length a - 1) div 2 = length a div 2 - 1"
      using pos by presburger
    with False show ?thesis by (simp add: np_median_def np_mean_def np_sum_def Let_def)
  qed
qed

lemma np_std_eq:
  "0 \<le> np_std a \<and> (np_std a)\<^sup>2 = (\<Sum>x\<leftarrow>a. (x - np_mean a)\<^sup>2) / real (length a)"
proof -
  have nonneg: "0 \<le> (\<Sum>x\<leftarrow>a. (x - np_mean a)\<^sup>2)"
    by (rule sum_list_nonneg) auto
  then have "0 \<le> (\<Sum>x\<leftarrow>a. (x - np_mean a)\<^sup>2) / real (length a)" by simp
  then show ?thesis
    by (simp add: np_std_def np_mean_def [of "map _ _"] np_sum_eq)
qed

lemma np_percentile_eq:
  assumes "a \<noteq> []" and "0 \<le> q" and "q \<le> 100"
  shows "np_percentile a q =
     (let h = real (length a - 1) * (q / 100) in
      sort a ! nat \<lfloor>h\<rfloor> + (h - real_of_int \<lfloor>h\<rfloor>) * (sort a ! nat \<lceil>h\<rceil> - sort a ! nat \<lfloor>h\<rfloor>))"
proof -
  define h where "h = real (length a - 1) * (q / 100)"
  have h0: "0 \<le> h" using assms by (simp add: h_def)
  have "q / 100 \<le> 1" using assms by simp
  then have "real (length a - 1) * (q / 100) \<le> real (length a - 1) * 1"
    by (intro mult_left_mono) simp_all
  then have hn: "h \<le> real (length a - 1)" by (simp add: h_def)
  have fl: "real (nat \<lfloor>h\<rfloor>) = real_of_int \<lfloor>h\<rfloor>" using h0 by simp
  show ?thesis
  proof (cases "h \<in> \<int>")
    case True
    then obtain z where "h = real_of_int z" by (auto elim: Ints_cases)
    then have gamma0: "h - real_of_int \<lfloor>h\<rfloor> = 0" by simp
    show ?thesis
      unfolding np_percentile_def Let_def h_def [symmetric] fl gamma0 by simp
  next
    case False
    have neq: "h \<noteq> real_of_int \<lfloor>h\<rfloor>"
    proof
      assume "h = real_of_int \<lfloor>h\<rfloor>"
      then have "h \<in> \<int>" by (metis Ints_of_int)
      with False show False ..
    qed
    then have ce: "\<lceil>h\<rceil> = \<lfloor>h\<rfloor> + 1" by (simp add: ceiling_altdef)
    have "real_of_int \<lfloor>h\<rfloor> < h"
      using of_int_floor_le [of h] neq by linarith
    with hn have "real_of_int \<lfloor>h\<rfloor> < real (length a - 1)" by simp
    then have "\<lfloor>h\<rfloor> < int (length a - 1)" by linarith
    then have "nat \<lfloor>h\<rfloor> + 1 \<le> length a - 1" using h0 by linarith
    then have mn: "min (nat \<lfloor>h\<rfloor> + 1) (length a - 1) = nat \<lfloor>h\<rfloor> + 1" by simp
    have nc: "nat \<lceil>h\<rceil> = nat \<lfloor>h\<rfloor> + 1" using ce h0 by (simp add: nat_add_distrib)
    show ?thesis
      unfolding np_percentile_def Let_def h_def [symmetric] fl mn nc by (simp add: mult.commute)
  qed
qed

lemma compute_metrics_nonempty:
  assumes "losses \<noteq> []"
  shows "compute_metrics losses =
     Inr \<lparr>total_loss = np_sum losses, mean_loss = np_mean losses, median_loss = np_median losses,
          std_dev_loss = np_std losses, min_loss = Min (set losses), max_loss = Max (set losses),
          percentile_95_loss = np_percentile losses 95\<rparr>"
  by (simp add: compute_metrics_def np_min_eq [OF assms] np_max_eq [OF assms])

lemma run_simulation_result:
  "fst (run_simulation src sim save_to_csv w) = compute_metrics (total_loss_per_run src sim w)"
  by (simp add: run_simulation_def total_loss_per_run_def Let_def split: prod.splits)

lemma metrics_general:
  assumes "losses = total_loss_per_run src sim w" and "losses \<noteq> []"
  shows "\<exists>m. fst (run_simulation src sim save_to_csv w) = Inr m
      \<and> total_loss m = sum_list losses
      \<and> mean_loss m = sum_list losses / real (length losses)
      \<and> median_loss m
          = (sort losses ! ((length losses - 1) div 2) + sort losses ! (length losses div 2)) / 2
      \<and> 0 \<le> std_dev_loss m
      \<and> (std_dev_loss m)\<^sup>2 = (\<Sum>x\<leftarrow>losses. (x - mean_loss m)\<^sup>2) / real (length losses)
      \<and> min_loss m \<in> set losses \<and> (\<forall>x \<in> set losses. min_loss m \<le> x)
      \<and> max_loss m \<in> set losses \<and> (\<forall>x \<in> set losses. x \<le> max_loss m)
      \<and> percentile_95_loss m
          = (let h = real (length losses - 1) * (95 / 100) in
             sort losses ! nat \<lfloor>h\<rfloor>
               + (h - real_of_int \<lfloor>h\<rfloor>) * (sort losses ! nat \<lceil>h\<rceil> - sort losses ! nat \<lfloor>h\<rfloor>))"
proof -
  let ?m = "\<lparr>total_loss = np_sum losses, mean_loss = np_mean losses, median_loss = np_median losses,
          std_dev_loss = np_std losses, min_loss = Min (set losses), max_loss = Max (set losses),
          percentile_95_loss = np_percentile losses 95\<rparr>"
  have res: "fst (run_simulation src sim save_to_csv w) = Inr ?m"
    using assms by (simp add: run_simulation_result compute_metrics_nonempty)
  have fin: "finite (set losses)" "set losses \<noteq> {}" using assms(2) by simp_all
  have mn: "Min (set losses) \<in> set losses" "\<forall>x \<in> set losses. Min (set losses) \<le> x"
    using fin by (simp_all add: Min_in)
  have mx: "Max (set losses) \<in> set losses" "\<forall>x \<in> set losses. x \<le> Max (set losses)"
    using fin by (simp_all add: Max_in)
  have pc: "np_percentile losses 95 = (let h = real (length losses - 1) * (95 / 100) in
             sort losses ! nat \<lfloor>h\<rfloor>
               + (h - real_of_int \<lfloor>h\<rfloor>) * (sort losses ! nat \<lceil>h\<rceil> - sort losses ! nat \<lfloor>h\<rfloor>))"
    using np_percentile_eq [OF assms(2), of 95] by simp
  have "total_loss ?m = sum_list losses" by (simp add: np_sum_eq)
  moreover have "mean_loss ?m = sum_list losses / real (length losses)"
    by (simp add: np_mean_def np_sum_eq)
  moreover have "median_loss ?m
          = (sort losses ! ((length losses - 1) div 2) + sort losses ! (length losses div 2)) / 2"
    using np_median_eq [OF assms(2)] by simp
  moreover have "0 \<le> std_dev_loss ?m
      \<and> (std_dev_loss ?m)\<^sup>2 = (\<Sum>x\<leftarrow>losses. (x - mean_loss ?m)\<^sup>2) / real (length losses)"
    using np_std_eq [of losses] by simp
  moreover have "min_loss ?m \<in> set losses \<and> (\<forall>x \<in> set losses. min_loss ?m \<le> x)"
    using mn by simp
  moreover have "max_loss ?m \<in> set losses \<and> (\<forall>x \<in> set losses. x \<le> max_loss ?m)"
    using mx by simp
  moreover have "percentile_95_loss ?m = (let h = real (length losses - 1) * (95 / 100) in
             sort losses ! nat \<lfloor>h\<rfloor>
               + (h - real_of_int \<lfloor>h\<rfloor>) * (sort losses ! nat \<lceil>h\<rceil> - sort losses ! nat \<lfloor>h\<rfloor>))"
    using pc by simp
  ultimately show ?thesis using res by blast
qed

lemma test_losses:
  "simulate_losses test_source test_simulator [1, 0, 2, 3, 1] w
     = ([26/5, 0, 52/5, 78/5, 26/5],
        test_simulator\<lparr>results := results test_simulator @ log_rows 0 [[26/5], [], [26/5, 26/5], [26/5, 26/5, 26/5], [26/5]]\<rparr>,
        w\<lparr>rng := rng w\<rparr>)"
proof -
  have "draw_runs (norm_rvs test_source (sev_param test_simulator) (sev_param test_simulator * 0.1))
           [1, 0, 2, 3, 1] (rng w) = ([[26/5], [], [26/5, 26/5], [26/5, 26/5, 26/5], [26/5]], rng w)"
    by (simp add: test_source_def numeral_2_eq_2 numeral_3_eq_3)
  from simulate_losses_draws [OF this] show ?thesis by simp
qed

lemma test_metrics:
  "compute_metrics [26/5, 0, 52/5, 78/5, 26/5]
     = Inr \<lparr>total_loss = 36.4, mean_loss = 7.28, median_loss = 5.2, std_dev_loss = sqrt 28.1216,
            min_loss = 0, max_loss = 15.6, percentile_95_loss = 14.56\<rparr>"
  by (simp add: compute_metrics_def np_min_def np_max_def np_sum_def np_mean_def np_median_def
      np_std_def np_percentile_def Let_def power2_eq_square)

lemma test_total_loss_per_run:
  "total_loss_per_run test_source test_simulator test_world = [26/5, 0, 52/5, 78/5, 26/5]"
proof -
  have a: "simulate_attacks test_source test_simulator test_world = ([1, 0, 2, 3, 1], test_world)"
    by (simp add: simulate_attacks_def test_source_def test_world_def)
  show ?thesis
    unfolding total_loss_per_run_def a Let_def prod.case test_losses by simp
qed

lemma metrics_regression:
  "fst (run_simulation test_source test_simulator False test_world)
     = Inr \<lparr>total_loss = 36.4, mean_loss = 7.28, median_loss = 5.2, std_dev_loss = sqrt 28.1216,
            min_loss = 0, max_loss = 15.6, percentile_95_loss = 14.56\<rparr>"
  by (simp only: run_simulation_result test_total_loss_per_run test_metrics)

lemma metrics_single_idle_run:
  assumes "fst (simulate_attacks src sim w) = [0]"
  shows "fst (run_simulation src sim save_to_csv w)
     = Inr \<lparr>total_loss = 0, mean_loss = 0, median_loss = 0, std_dev_loss = 0,
            min_loss = 0, max_loss = 0, percentile_95_loss = 0\<rparr>"
proof -
  obtain w1 where a: "simulate_attacks src sim w = ([0], w1)"
    using assms by (cases "simulate_attacks src sim w") simp
  have "draw_runs (norm_rvs src (sev_param sim) (sev_param sim * 0.1)) [0] (rng w1) = ([[]], rng w1)"
    by simp
  from simulate_losses_draws [OF this] have "total_loss_per_run src sim w = [0]"
    by (simp add: total_loss_per_run_def a)
  then show ?thesis
    by (simp add: run_simulation_result compute_metrics_def np_min_def np_max_def np_sum_def
        np_mean_def np_median_def np_std_def np_percentile_def Let_def)
qed

text \<open>
  C2. When the array of per-run losses is not empty, \<open>run_simulation\<close> returns metrics
  whose fields are the sum of the losses, their arithmetic mean, their median (the middle
  of the sorted losses, the mean of the two middle ones for an even number), their
  population standard deviation (non-negative, its square the mean squared deviation),
  their minimum, their maximum, and the 95th percentile by linear interpolation between
  the two closest ranks of the sorted losses. With the samplers of the regression test
  (attack counts \<open>[1, 0, 2, 3, 1]\<close>, every cost 5.2) the metrics are total 36.4, mean 7.28,
  median 5.2, minimum 0, maximum 15.6 (and standard deviation \<open>sqrt 28.1216\<close>, percentile
  14.56); for a single run without attack all seven metrics are 0.
\<close>

theorem run_simulation_metrics:
  "(losses = total_loss_per_run src sim w \<and> losses \<noteq> [] \<longrightarrow>
      (\<exists>m. fst (run_simulation src sim save_to_csv w) = Inr m
        \<and> total_loss m = sum_list losses
        \<and> mean_loss m = sum_list losses / real (length losses)
        \<and> median_loss m
            = (sort losses ! ((length losses - 1) div 2) + sort losses ! (length losses div 2)) / 2
        \<and> 0 \<le> std_dev_loss m
        \<and> (std_dev_loss m)\<^sup>2 = (\<Sum>x\<leftarrow>losses. (x - mean_loss m)\<^sup>2) / real (length losses)
        \<and> min_loss m \<in> set losses \<and> (\<forall>x \<in> set losses. min_loss m \<le> x)
        \<and> max_loss m \<in> set losses \<and> (\<forall>x \<in> set losses. x \<le> max_loss m)
        \<and> percentile_95_loss m
            = (let h = real (length losses - 1) * (95 / 100) in
               sort losses ! nat \<lfloor>h\<rfloor>
                 + (h - real_of_int \<lfloor>h\<rfloor>)
                   * (sort losses ! nat \<lceil>h\<rceil> - sort losses ! nat \<lfloor>h\<rfloor>))))
   \<and> fst (run_simulation test_source test_simulator False test_world)
       = Inr \<lparr>total_loss = 36.4, mean_loss = 7.28, median_loss = 5.2,
              std_dev_loss = sqrt 28.1216, min_loss = 0, max_loss = 15.6,
              percentile_95_loss = 14.56\<rparr>
   \<and> (fst (simulate_attacks src sim w) = [0] \<longrightarrow>
        fst (run_simulation src sim save_to_csv w)
          = Inr \<lparr>total_loss = 0, mean_loss = 0, median_loss = 0, std_dev_loss = 0,
                 min_loss = 0, max_loss = 0, percentile_95_loss = 0\<rparr>)"
  using metrics_general [of losses src sim w save_to_csv] metrics_regression
    metrics_single_idle_run [of src sim w save_to_csv]
  by blast

theorem run_simulation_metrics_witness:
  "(\<exists>m. fst (run_simulation test_source test_simulator True test_world) = Inr m
        \<and> total_loss m = 36.4 \<and> mean_loss m = 7.28)
   \<and> fst (run_simulation idle_source test_simulator False test_world)
          = Inr \<lparr>total_loss = 0, mean_loss = 0, median_loss = 0, std_dev_loss = 0,
                 min_loss = 0, max_loss = 0, percentile_95_loss = 0\<rparr>"
proof -
  have idle: "fst (simulate_attacks idle_source test_simulator test_world) = [0]"
    by (simp add: simulate_attacks_def idle_source_def)
  have ne: "[26/5, 0, 52/5, 78/5, 26/5] = total_loss_per_run test_source test_simulator test_world
      \<and> [26/5, 0, 52/5, 78/5, 26/5] \<noteq> ([] :: real list)"
    by (simp add: test_total_loss_per_run)
  have "\<exists>m. fst (run_simulation test_source test_simulator True test_world) = Inr m
        \<and> total_loss m = sum_list [26/5, 0, 52/5, 78/5, 26/5]
        \<and> mean_loss m = sum_list [26/5, 0, 52/5, 78/5, 26/5]
                          / real (length [26/5, 0, 52/5, 78/5, 26/5 :: real])"
    using run_simulation_metrics [of "[26/5, 0, 52/5, 78/5, 26/5]" test_source test_simulator
        test_world True] ne
    by blast
  then have first: "\<exists>m. fst (run_simulation test_source test_simulator True test_world) = Inr m
        \<and> total_loss m = 36.4 \<and> mean_loss m = 7.28"
    by simp
  have second: "fst (run_simulation idle_source test_simulator False test_world)
          = Inr \<lparr>total_loss = 0, mean_loss = 0, median_loss = 0, std_dev_loss = 0,
                 min_loss = 0, max_loss = 0, percentile_95_loss = 0\<rparr>"
    using run_simulation_metrics [of "[]" idle_source test_simulator test_world False] idle
    by blast
  from first second show ?thesis by blast
qed

section \<open>What a call leaves behind\<close>

lemma run_simulation_unfold:
  assumes "poisson_rvs src (freq_param sim) (num_simulations sim) (rng w) = (attack_counts, g0)"
    and "draw_runs (norm_rvs src (sev_param sim) (sev_param sim * 0.1)) attack_counts g0 = (css, g')"
  shows "run_simulation src sim save_to_csv w
     = (compute_metrics (map sum_list css),
        sim\<lparr>results := results sim @ log_rows 0 css\<rparr>,
        w\<lparr>rng := g',
          csv_files := (if save_to_csv then csv_files w @ [results sim @ log_rows 0 css]
                        else csv_files w)\<rparr>)"
proof -
  have a: "simulate_attacks src sim w = (attack_counts, w\<lparr>rng := g0\<rparr>)"
    using assms(1) by (simp add: simulate_attacks_def)
  have l: "simulate_losses src sim attack_counts (w\<lparr>rng := g0\<rparr>)
     = (map sum_list css, sim\<lparr>results := results sim @ log_rows 0 css\<rparr>, w\<lparr>rng := g'\<rparr>)"
    using simulate_losses_draws [of src sim attack_counts "w\<lparr>rng := g0\<rparr>" css g'] assms(2)
    by simp
  show ?thesis
    unfolding run_simulation_def a Let_def prod.case l
    by (simp add: save_results_to_csv_def)
qed

lemma test_source_run:
  "run_simulation test_source sim False w
     = (compute_metrics [26/5, 0, 52/5, 78/5, 26/5],
        sim\<lparr>results := results sim
             @ log_rows 0 [[26/5], [], [26/5, 26/5], [26/5, 26/5, 26/5], [26/5]]\<rparr>,
        w)"
proof -
  have p: "poisson_rvs test_source (freq_param sim) (num_simulations sim) (rng w)
             = ([1, 0, 2, 3, 1], rng w)"
    by (simp add: test_source_def)
  have d: "draw_runs (norm_rvs test_source (sev_param sim) (sev_param sim * 0.1))
           [1, 0, 2, 3, 1] (rng w) = ([[26/5], [], [26/5, 26/5], [26/5, 26/5, 26/5], [26/5]], rng w)"
    by (simp add: test_source_def numeral_2_eq_2 numeral_3_eq_3)
  show ?thesis
    by (simp add: run_simulation_unfold [OF p d])
qed

text \<open>
  C7 (amended). Every call of \<open>run_simulation\<close> appends the rows of all its attacks, as
  many as the sum of the attack counts, to \<open>self.results\<close>, whether or not
  \<open>save_to_csv\<close> is set: the simulator after the call is the same for both values of the
  flag, and the table is never cleared, so the rows of successive calls accumulate. The
  flag decides only whether the table is also written to a CSV file.
\<close>

theorem run_simulation_keeps_rows:
  assumes "run_simulation src sim save_to_csv w = (res, sim', w')"
  shows "\<exists>rows. results sim' = results sim @ rows
           \<and> length rows = sum_list (fst (simulate_attacks src sim w))
           \<and> fst (snd (run_simulation src sim (\<not> save_to_csv) w)) = sim'
           \<and> csv_files w' = (if save_to_csv then csv_files w @ [results sim'] else csv_files w)"
proof -
  obtain attack_counts g0 where
    p: "poisson_rvs src (freq_param sim) (num_simulations sim) (rng w) = (attack_counts, g0)"
    by (cases "poisson_rvs src (freq_param sim) (num_simulations sim) (rng w)")
  obtain css g' where
    d: "draw_runs (norm_rvs src (sev_param sim) (sev_param sim * 0.1)) attack_counts g0 = (css, g')"
    by (cases "draw_runs (norm_rvs src (sev_param sim) (sev_param sim * 0.1)) attack_counts g0")
  have counts: "fst (simulate_attacks src sim w) = attack_counts"
    using p by (simp add: simulate_attacks_def)
  have len: "length (log_rows 0 css) = sum_list attack_counts"
    using draw_runs_lengths [OF d] by (simp add: log_rows_length)
  have sim': "sim' = sim\<lparr>results := results sim @ log_rows 0 css\<rparr>"
    and w': "csv_files w' = (if save_to_csv then csv_files w @ [results sim @ log_rows 0 css]
                        else csv_files w)"
    using assms by (auto simp: run_simulation_unfold [OF p d])
  have other: "fst (snd (run_simulation src sim (\<not> save_to_csv) w)) = sim'"
    by (simp add: run_simulation_unfold [OF p d] sim')
  show ?thesis
    using sim' w' len counts other by (intro exI [of _ "log_rows 0 css"]) simp
qed

theorem run_simulation_keeps_rows_witness:
  "\<exists>rows. results (fst (snd (run_simulation test_source test_simulator False test_world)))
             = results test_simulator @ rows
         \<and> length rows = 7"
proof -
  have counts: "fst (simulate_attacks test_source test_simulator test_world) = [1, 0, 2, 3, 1]"
    by (simp add: simulate_attacks_def test_source_def)
  obtain res sim' w' where
    run: "run_simulation test_source test_simulator False test_world = (res, sim', w')"
    by (cases "run_simulation test_source test_simulator False test_world")
  from run_simulation_keeps_rows [OF run] show ?thesis
    unfolding counts run by auto
qed

text \<open>
  The claim as first stated fails: after one call without export the simulator holds the
  7 rows of that call, and after a second call it holds 14.
\<close>

theorem run_simulation_discards_rows_counterexample:
  "length (results (fst (snd (run_simulation test_source test_simulator False test_world)))) = 7
   \<and> length (results (fst (snd (run_simulation test_source
         (fst (snd (run_simulation test_source test_simulator False test_world))) False
         (snd (snd (run_simulation test_source test_simulator False test_world))))))) = 14"
  by (simp add: test_source_run log_rows_length test_simulator_def)

section \<open>Where the random variates come from\<close>












end
